theory Spec2Isabelle
  imports Main
begin

section \<open>JavaScript values\<close>

text \<open>
  The values the functions of \<^verbatim>\<open>core.js\<close> receive. Objects, functions and arrays are
  references (compared by identity, as \<^verbatim>\<open>===\<close> does); a number is an integer or \<^verbatim>\<open>NaN\<close>.
  What the references stand for lives in a heap, see below.
\<close>

datatype js_value =
    JUndefined
  | JNull
  | JBoolean bool
  | JNumber int
  | JNaN
  | JString string
  | JSymbol nat
  | JObject nat
  | JFunction nat
  | JArray nat

text \<open>\<^verbatim>\<open>Error\<close> is what \<^verbatim>\<open>throw new Error()\<close> raises; \<^verbatim>\<open>TypeError\<close> is what the
  language raises when a property of \<^verbatim>\<open>undefined\<close> is read, when a value that is not a
  function is called, and (the files are in strict mode) when a property is assigned on a
  primitive.\<close>

datatype js_error = Error | TypeError

fun typeof :: "js_value \<Rightarrow> string" where
  "typeof JUndefined = ''undefined''"
| "typeof JNull = ''object''"
| "typeof (JBoolean b) = ''boolean''"
| "typeof (JNumber n) = ''number''"
| "typeof JNaN = ''number''"
| "typeof (JString s) = ''string''"
| "typeof (JSymbol k) = ''symbol''"
| "typeof (JObject r) = ''object''"
| "typeof (JFunction r) = ''function''"
| "typeof (JArray r) = ''object''"

text \<open>The conversion to a boolean that \<^verbatim>\<open>if\<close>, \<^verbatim>\<open>!\<close>, \<^verbatim>\<open>&&\<close> and \<^verbatim>\<open>||\<close> apply.
  \<^verbatim>\<open>a && b\<close> is \<^verbatim>\<open>a\<close> itself when \<^verbatim>\<open>a\<close> is falsy, and \<^verbatim>\<open>b\<close> otherwise.\<close>

fun truthy :: "js_value \<Rightarrow> bool" where
  "truthy JUndefined = False"
| "truthy JNull = False"
| "truthy (JBoolean b) = b"
| "truthy (JNumber n) = (n \<noteq> 0)"
| "truthy JNaN = False"
| "truthy (JString s) = (s \<noteq> [])"
| "truthy (JSymbol k) = True"
| "truthy (JObject r) = True"
| "truthy (JFunction r) = True"
| "truthy (JArray r) = True"

definition js_and :: "js_value \<Rightarrow> js_value \<Rightarrow> js_value" where
  "js_and a b = (if truthy a then b else a)"

definition js_not :: "js_value \<Rightarrow> js_value" where
  "js_not a = JBoolean (\<not> truthy a)"

text \<open>\<^verbatim>\<open>a === b\<close>: identity on references, equality on primitives, and \<^verbatim>\<open>NaN\<close> is equal to
  nothing.\<close>

definition strict_equals :: "js_value \<Rightarrow> js_value \<Rightarrow> bool" where
  "strict_equals a b = (a \<noteq> JNaN \<and> a = b)"

text \<open>
  The heap. \<open>properties\<close> gives the own properties of each object, function and array.
  \<open>prototypes\<close> gives the prototype chain of each value, nearest first: for a reference
  the objects it inherits from, for a primitive the chain of its wrapper's prototype
  (\<^verbatim>\<open>String.prototype\<close>, then \<^verbatim>\<open>Object.prototype\<close>). The language keeps every chain
  finite, and no function here changes one. \<open>frozen\<close> tells the objects that take no
  assignment (\<^verbatim>\<open>Object.freeze\<close>, or an object that is not extensible and gets a new
  property). \<open>arrays\<close> holds the elements of the arrays, \<open>JArray r\<close> being the array at
  position \<open>r\<close>; a new array goes to the end.
\<close>

record heap =
  properties :: "js_value \<Rightarrow> string \<rightharpoonup> js_value"
  prototypes :: "js_value \<Rightarrow> js_value list"
  frozen :: "js_value \<Rightarrow> bool"
  arrays :: "js_value list list"

definition is_reference :: "js_value \<Rightarrow> bool" where
  "is_reference v =
     (case v of JObject r \<Rightarrow> True | JFunction r \<Rightarrow> True | JArray r \<Rightarrow> True | _ \<Rightarrow> False)"

text \<open>The first of the objects of a chain that has the property gives its value; when none
  has it the value is \<^verbatim>\<open>undefined\<close>.\<close>

fun lookup :: "(js_value \<Rightarrow> string \<rightharpoonup> js_value) \<Rightarrow> js_value list \<Rightarrow> string \<Rightarrow> js_value" where
  "lookup own [] p = JUndefined"
| "lookup own (v # vs) p = (case own v p of Some x \<Rightarrow> x | None \<Rightarrow> lookup own vs p)"

text \<open>
  \<^verbatim>\<open>v[p]\<close>. Reading a property of \<^verbatim>\<open>undefined\<close> or \<^verbatim>\<open>null\<close> raises. A reference is asked
  first for its own property and then along its prototype chain, a primitive along the
  chain of its wrapper. The own properties of a string (its length and characters) are
  not modelled, nor are getters: a read changes nothing.
\<close>

definition get_prop :: "heap \<Rightarrow> js_value \<Rightarrow> string \<Rightarrow> js_error + js_value" where
  "get_prop h v p =
     (if v = JUndefined \<or> v = JNull then Inl TypeError
      else Inr (lookup (properties h)
                  ((if is_reference v then [v] else []) @ prototypes h v) p))"

text \<open>
  \<^verbatim>\<open>v[p] = x\<close> in strict mode. On a reference that is not frozen it makes or changes the
  own property (setters are not modelled); on a frozen one and on a primitive it raises.
\<close>

definition set_prop :: "heap \<Rightarrow> js_value \<Rightarrow> string \<Rightarrow> js_value \<Rightarrow> js_error + heap" where
  "set_prop h v p x =
     (if is_reference v \<and> \<not> frozen h v
      then Inr (h\<lparr>properties := (properties h)(v := (properties h v)(p \<mapsto> x))\<rparr>)
      else Inl TypeError)"

text \<open>A heap where no object has a property or a prototype, none is frozen and there is
  no array.\<close>

definition empty_heap :: heap where
  "empty_heap =
     \<lparr>properties = (\<lambda>v. Map.empty), prototypes = (\<lambda>v. []), frozen = (\<lambda>v. False),
      arrays = []\<rparr>"

section \<open>core.js: the type predicates\<close>

definition isBoolean :: "js_value \<Rightarrow> js_value" where
  "isBoolean val = JBoolean (typeof val = ''boolean'')"

definition isDef :: "js_value \<Rightarrow> js_value" where
  "isDef val = JBoolean (\<not> strict_equals val JUndefined)"

definition isNull :: "js_value \<Rightarrow> js_value" where
  "isNull val = JBoolean (strict_equals val JNull)"

definition isDefAndNotNull :: "js_value \<Rightarrow> js_value" where
  "isDefAndNotNull val = js_and (isDef val) (js_not (isNull val))"

text \<open>\<^verbatim>\<open>val && typeof val === 'object' && val.nodeType === 1\<close>: the third operand is
  evaluated only when the first two are truthy, so \<^verbatim>\<open>val\<close> is then neither
  \<^verbatim>\<open>undefined\<close> nor \<^verbatim>\<open>null\<close> and the property read does not raise.\<close>

definition isElement :: "heap \<Rightarrow> js_value \<Rightarrow> js_error + js_value" where
  "isElement h val =
     (let a = js_and val (JBoolean (typeof val = ''object''))
      in if truthy a
         then (case get_prop h val ''nodeType'' of
                 Inl e \<Rightarrow> Inl e
               | Inr nodeType \<Rightarrow> Inr (JBoolean (strict_equals nodeType (JNumber 1))))
         else Inr a)"

definition isFunction :: "js_value \<Rightarrow> js_value" where
  "isFunction val = JBoolean (typeof val = ''function'')"

definition isObject :: "js_value \<Rightarrow> js_value" where
  "isObject val =
     (let type = typeof val
      in JBoolean (type = ''object'' \<and> \<not> strict_equals val JNull \<or> type = ''function''))"

definition isString :: "js_value \<Rightarrow> js_value" where
  "isString val = JBoolean (typeof val = ''string'')"

section \<open>core.js: bind and rbind\<close>

text \<open>
  A function value is a reference; the table \<open>F\<close> gives, for each function reference, what
  calling it with a receiver and an argument list does, which can be any outcome (a value
  returned, an exception, an effect). A callable made by \<^verbatim>\<open>bind\<close> or \<^verbatim>\<open>rbind\<close> is a closure:
  it takes its own receiver and call-time arguments, and raises \<^verbatim>\<open>TypeError\<close> when what
  it was to call is not a function. \<^verbatim>\<open>arguments\<close> is the list of the arguments of a call,
  and a parameter with no argument is \<^verbatim>\<open>undefined\<close>.
\<close>

type_synonym 'r fun_table = "nat \<Rightarrow> js_value \<Rightarrow> js_value list \<Rightarrow> 'r"

type_synonym 'r callable = "js_value \<Rightarrow> js_value list \<Rightarrow> js_error + 'r"

definition argument :: "js_value list \<Rightarrow> nat \<Rightarrow> js_value" where
  "argument arguments i = (if i < length arguments then arguments ! i else JUndefined)"

text \<open>\<^verbatim>\<open>fn.apply(context, args)\<close>.\<close>

definition fn_apply :: "'r fun_table \<Rightarrow> js_value \<Rightarrow> js_value \<Rightarrow> js_value list \<Rightarrow> js_error + 'r" where
  "fn_apply F fn context args =
     (case fn of JFunction r \<Rightarrow> Inr (F r context args) | _ \<Rightarrow> Inl TypeError)"

text \<open>The language's own \<^verbatim>\<open>Function.prototype.bind\<close>: the bound function ignores its
  receiver and calls the target with the bound receiver and the bound arguments first.\<close>

definition native_bind :: "'r fun_table \<Rightarrow> nat \<Rightarrow> js_value \<Rightarrow> js_value list \<Rightarrow> 'r callable" where
  "native_bind F r boundThis boundArgs = (\<lambda>this args. Inr (F r boundThis (boundArgs @ args)))"

definition bindWithArgs :: "'r fun_table \<Rightarrow> js_value list \<Rightarrow> 'r callable" where
  "bindWithArgs F arguments =
     (let fn = argument arguments 0;
          context = argument arguments 1;
          args = drop 2 arguments
      in (\<lambda>this arguments'.
            let newArgs = args @ arguments'
            in fn_apply F fn context newArgs))"

text \<open>\<^verbatim>\<open>fn.call.apply(fn.bind, arguments)\<close> is \<^verbatim>\<open>fn.bind(context, ...args)\<close> when \<^verbatim>\<open>fn\<close>
  is a function; for any other truthy value (a primitive, or an object, which is taken to
  have no \<^verbatim>\<open>call\<close> of its own) \<^verbatim>\<open>fn.call\<close> is \<^verbatim>\<open>undefined\<close> and reading its
  \<^verbatim>\<open>apply\<close> raises. The closure returned calls the bound function with receiver \<^verbatim>\<open>null\<close>.\<close>

definition bindWithNative :: "'r fun_table \<Rightarrow> js_value list \<Rightarrow> js_error + 'r callable" where
  "bindWithNative F arguments =
     (case argument arguments 0 of
        JFunction r \<Rightarrow>
          (let bind = native_bind F r (argument arguments 1) (drop 2 arguments)
           in Inr (\<lambda>this arguments'. bind JNull arguments'))
      | _ \<Rightarrow> Inl TypeError)"

definition bindWithoutArgs :: "'r fun_table \<Rightarrow> js_value \<Rightarrow> js_value \<Rightarrow> 'r callable" where
  "bindWithoutArgs F fn context = (\<lambda>this arguments'. fn_apply F fn context arguments')"

definition bindWithoutNative :: "'r fun_table \<Rightarrow> js_value list \<Rightarrow> 'r callable" where
  "bindWithoutNative F arguments =
     (if length arguments > 2 then bindWithArgs F arguments
      else bindWithoutArgs F (argument arguments 0) (argument arguments 1))"

text \<open>\<^verbatim>\<open>core.bind\<close>; \<open>hasNativeBind\<close> is whether \<^verbatim>\<open>Function.prototype.bind\<close> exists in
  the engine the code runs in.\<close>

definition bind :: "bool \<Rightarrow> 'r fun_table \<Rightarrow> js_value list \<Rightarrow> js_error + 'r callable" where
  "bind hasNativeBind F arguments =
     (let fn = argument arguments 0
      in if \<not> truthy fn then Inl Error
         else if hasNativeBind then bindWithNative F arguments
         else Inr (bindWithoutNative F arguments))"

definition rbind :: "'r fun_table \<Rightarrow> js_value list \<Rightarrow> js_error + 'r callable" where
  "rbind F arguments =
     (let fn = argument arguments 0;
          context = argument arguments 1
      in if \<not> truthy fn then Inl Error
         else if length arguments > 2
         then (let args = drop 2 arguments
               in Inr (\<lambda>this arguments'.
                         let newArgs = arguments' @ args
                         in fn_apply F fn context newArgs))
         else Inr (\<lambda>this arguments'. fn_apply F fn context arguments'))"

section \<open>core.js: getUid\<close>

text \<open>
  The state of the module: the property name \<^verbatim>\<open>core.UID_PROPERTY\<close>, chosen when the module
  is loaded, the counter \<^verbatim>\<open>core.uniqueIdCounter_\<close>, which starts at 1, and the heap of the
  objects that callers pass.
\<close>

record core =
  UID_PROPERTY :: string
  uniqueIdCounter :: int
  objects :: heap

text \<open>The state when the module has been loaded (lines 14 and 21): the property name is
  \<^verbatim>\<open>'core_'\<close> followed by the digits of a random number, the counter is 1.\<close>

definition core_init :: "string \<Rightarrow> heap \<Rightarrow> core" where
  "core_init digits h = \<lparr>UID_PROPERTY = ''core_'' @ digits, uniqueIdCounter = 1, objects = h\<rparr>"

text \<open>
  The counter after \<^verbatim>\<open>core.uniqueIdCounter_++\<close>. The counter is a number of the language, a
  double: adding 1 is exact up to \<open>2 ^ 53\<close>, and at \<open>2 ^ 53\<close> the sum is rounded back to
  \<open>2 ^ 53\<close>, so the counter stays there. The counter starts at 1 and nothing else changes
  it, so it is always an integer from 1 to \<open>2 ^ 53\<close>; what \<^verbatim>\<open>++\<close> does to other numbers is
  not modelled.
\<close>

definition increment :: "int \<Rightarrow> int" where
  "increment c = (if c < 2 ^ 53 then c + 1 else c)"

text \<open>
  \<^verbatim>\<open>opt_object[UID] || (opt_object[UID] = core.uniqueIdCounter_++)\<close> gives the property,
  own or inherited, when it is truthy. Otherwise the counter is read and incremented and
  its old value is assigned to the property; the assignment raises on a primitive and on
  a frozen object, after the increment. The result is what the call returns or raises, with the state after it.
\<close>

definition getUid :: "js_value \<Rightarrow> core \<Rightarrow> (js_error + js_value) \<times> core" where
  "getUid opt_object s =
     (if truthy opt_object
      then (case get_prop (objects s) opt_object (UID_PROPERTY s) of
              Inl e \<Rightarrow> (Inl e, s)
            | Inr uid \<Rightarrow>
                if truthy uid then (Inr uid, s)
                else (let c = uniqueIdCounter s;
                          s1 = s\<lparr>uniqueIdCounter := increment c\<rparr>
                      in case set_prop (objects s1) opt_object (UID_PROPERTY s1) (JNumber c) of
                           Inl e \<Rightarrow> (Inl e, s1)
                         | Inr h \<Rightarrow> (Inr (JNumber c), s1\<lparr>objects := h\<rparr>)))
      else (Inr (JNumber (uniqueIdCounter s)),
            s\<lparr>uniqueIdCounter := increment (uniqueIdCounter s)\<rparr>))"

text \<open>A sequence of calls, one for each argument of the list, each in the state the call
  before left: the results in order, and the final state.\<close>

fun getUid_calls :: "js_value list \<Rightarrow> core \<Rightarrow> (js_error + js_value) list \<times> core" where
  "getUid_calls [] s = ([], s)"
| "getUid_calls (v # vs) s =
     (case getUid v s of (r, s1) \<Rightarrow>
        (case getUid_calls vs s1 of (rs, s2) \<Rightarrow> (r # rs, s2)))"



section \<open>core.js: collectSuperClassesProperty and mergeSuperClassesProperty\<close>

text \<open>The loop of \<^verbatim>\<open>collectSuperClassesProperty\<close> follows \<^verbatim>\<open>superClass_.constructor\<close>
  for as long as \<^verbatim>\<open>superClass_\<close> is truthy, which need not end on every heap; not
  returning is \<open>None\<close>.\<close>

partial_function (option) collect_loop ::
  "heap \<Rightarrow> string \<Rightarrow> js_value \<Rightarrow> js_value list \<Rightarrow> (js_error + js_value list) option" where
  "collect_loop h propertyName constructor propertyValues =
     (case get_prop h constructor ''superClass_'' of
        Inl e \<Rightarrow> Some (Inl e)
      | Inr superClass \<Rightarrow>
          if truthy superClass
          then (case get_prop h superClass ''constructor'' of
                  Inl e \<Rightarrow> Some (Inl e)
                | Inr constructor' \<Rightarrow>
                    (case get_prop h constructor' propertyName of
                       Inl e \<Rightarrow> Some (Inl e)
                     | Inr v \<Rightarrow> collect_loop h propertyName constructor' (propertyValues @ [v])))
          else Some (Inr propertyValues))"

declare collect_loop.simps [code]

definition collectSuperClassesProperty ::
  "heap \<Rightarrow> js_value \<Rightarrow> string \<Rightarrow> (js_error + js_value list) option" where
  "collectSuperClassesProperty h constructor propertyName =
     (case get_prop h constructor propertyName of
        Inl e \<Rightarrow> Some (Inl e)
      | Inr v \<Rightarrow> collect_loop h propertyName constructor [v])"

text \<open>
  \<^verbatim>\<open>opt_mergeFn\<close> is a function of the caller, which may have an effect: it takes the
  elements of the array of the collected values and the caller's own state \<open>u\<close>, and
  gives the merged value and the state after the call. \<open>None\<close> is a call without
  \<^verbatim>\<open>opt_mergeFn\<close>: the merged value is then the array of the collected values, a new
  array of the heap. The result of \<^verbatim>\<open>mergeSuperClassesProperty\<close> is what it returns or
  raises, the heap, and the caller's state after it.
\<close>

definition mergeSuperClassesProperty ::
  "js_value \<Rightarrow> string \<Rightarrow> (js_value list \<Rightarrow> 'u \<Rightarrow> js_value \<times> 'u) option \<Rightarrow> heap \<times> 'u
     \<Rightarrow> ((js_error + js_value) \<times> heap \<times> 'u) option" where
  "mergeSuperClassesProperty constructor propertyName opt_mergeFn st =
     (case st of (h, u) \<Rightarrow>
        (let mergedName = propertyName @ ''_MERGED''
         in case get_prop h constructor mergedName of
              Inl e \<Rightarrow> Some (Inl e, h, u)
            | Inr cached \<Rightarrow>
                if truthy cached then Some (Inr cached, h, u)
                else (case collectSuperClassesProperty h constructor propertyName of
                        None \<Rightarrow> None
                      | Some (Inl e) \<Rightarrow> Some (Inl e, h, u)
                      | Some (Inr collected) \<Rightarrow>
                          (case (case opt_mergeFn of
                                   None \<Rightarrow>
                                     (JArray (length (arrays h)),
                                      h\<lparr>arrays := arrays h @ [collected]\<rparr>, u)
                                 | Some mergeFn \<Rightarrow>
                                     (case mergeFn collected u of (x, u') \<Rightarrow> (x, h, u'))) of
                             (merged, h1, u') \<Rightarrow>
                               (case set_prop h1 constructor mergedName merged of
                                  Inl e \<Rightarrow> Some (Inl e, h1, u')
                                | Inr h' \<Rightarrow>
                                    (case get_prop h' constructor mergedName of
                                       Inl e \<Rightarrow> Some (Inl e, h', u')
                                     | Inr v \<Rightarrow> Some (Inr v, h', u')))))))"

section \<open>DomDelegatedEventHandle.js\<close>

text \<open>
  The registry of one element: \<^verbatim>\<open>listeners\<close> maps an event name to the array of the
  listeners bound directly, \<^verbatim>\<open>delegating\<close> maps an event name to an entry whose
  \<^verbatim>\<open>selectors\<close> maps a selector to the array of the listeners delegated for it.
  A listener is a function reference, and every key has an array of its own. The mappings
  are plain objects: a map gives their own properties, and a name that is not an own
  property is read from \<^verbatim>\<open>Object.prototype\<close>.
\<close>

record delegate =
  selectors :: "string \<rightharpoonup> nat list"

record registry =
  delegating :: "string \<rightharpoonup> delegate"
  listeners :: "string \<rightharpoonup> nat list"

text \<open>Modelled from the spec: \<^verbatim>\<open>domData\<close> (\<^verbatim>\<open>./domData\<close>) is missing. It is the
  per-element side-table; \<^verbatim>\<open>domData.get(element, key, {})\<close> gives the element's mapping
  stored under the key, the empty mapping when there is none. The table is a function from
  elements to registries, an element without data having two empty mappings.\<close>

type_synonym domData = "nat \<Rightarrow> registry"

definition domData_get_delegating :: "domData \<Rightarrow> nat \<Rightarrow> (string \<rightharpoonup> delegate)" where
  "domData_get_delegating dd element = delegating (dd element)"

definition domData_get_listeners :: "domData \<Rightarrow> nat \<Rightarrow> (string \<rightharpoonup> nat list)" where
  "domData_get_listeners dd element = listeners (dd element)"

text \<open>Modelled from the spec: \<^verbatim>\<open>array.remove\<close> (module \<^verbatim>\<open>metal\<close>) is missing. It
  searches the array for the reference and removes it where it is found first; an array
  without the reference stays as it is. The search is the array's own \<^verbatim>\<open>indexOf\<close>: on a
  value that has none (a function, a plain object) the call raises \<^verbatim>\<open>TypeError\<close>, which
  \<open>remove_at_key\<close> below accounts for.\<close>

definition array_remove :: "'a list \<Rightarrow> 'a \<Rightarrow> 'a list" where
  "array_remove arr obj = remove1 obj arr"

text \<open>The names that every plain object inherits from \<^verbatim>\<open>Object.prototype\<close>, as the
  language defines it (its annex of legacy names included) and with no property added to
  it. Each of them reads as a function, \<^verbatim>\<open>__proto__\<close> as \<^verbatim>\<open>Object.prototype\<close> itself: a
  truthy value that is not an array and has neither \<^verbatim>\<open>indexOf\<close> nor \<^verbatim>\<open>selectors\<close>.\<close>

definition Object_prototype_names :: "string list" where
  "Object_prototype_names =
     [''constructor'', ''hasOwnProperty'', ''isPrototypeOf'', ''propertyIsEnumerable'',
      ''toLocaleString'', ''toString'', ''valueOf'', ''__proto__'', ''__defineGetter__'',
      ''__defineSetter__'', ''__lookupGetter__'', ''__lookupSetter__'']"

text \<open>Modelled from the spec: the class \<^verbatim>\<open>EventHandle\<close> (module \<^verbatim>\<open>metal-events\<close>) is
  missing. Its constructor keeps the emitter, the event name and the listener in
  \<^verbatim>\<open>emitter_\<close>, \<^verbatim>\<open>event_\<close> and \<^verbatim>\<open>listener_\<close>; the subclass adds \<^verbatim>\<open>selector_\<close>, which is
  \<^verbatim>\<open>undefined\<close> when the constructor got no selector. The fields are named
  \<open>this_emitter\<close>, \<open>this_event\<close>, \<open>this_listener\<close> and \<open>this_selector\<close> here.\<close>

record handle =
  this_emitter :: nat
  this_event :: string
  this_listener :: nat
  this_selector :: js_value

definition DomDelegatedEventHandle :: "nat \<Rightarrow> string \<Rightarrow> nat \<Rightarrow> js_value \<Rightarrow> handle" where
  "DomDelegatedEventHandle emitter event listener opt_selector =
     \<lparr>this_emitter = emitter, this_event = event, this_listener = listener,
      this_selector = opt_selector\<rparr>"

text \<open>Lines 37 to 40 of \<^verbatim>\<open>removeListener\<close>, on the mapping \<^verbatim>\<open>arr\<close> chosen before.
  When the key is an own property, \<^verbatim>\<open>array.remove(arr[key] || [], listener)\<close> changes the
  array stored under it, and \<^verbatim>\<open>delete arr[key]\<close> follows when that array is then empty.
  When it is not, and the name is inherited, \<^verbatim>\<open>arr[key]\<close> is the inherited value, which is
  truthy, and \<^verbatim>\<open>array.remove\<close> raises on it. Otherwise \<^verbatim>\<open>arr[key]\<close> is \<^verbatim>\<open>undefined\<close>, the
  removal is from a new empty array and nothing is deleted.\<close>

definition remove_at_key ::
  "(string \<rightharpoonup> nat list) \<Rightarrow> string \<Rightarrow> nat \<Rightarrow> js_error + (string \<rightharpoonup> nat list)" where
  "remove_at_key arr key listener =
     (case arr key of
        Some bucket \<Rightarrow>
          (let arr1 = arr(key \<mapsto> array_remove bucket listener)
           in (case arr1 key of
                 None \<Rightarrow> Inr arr1
               | Some bucket1 \<Rightarrow>
                   if length bucket1 = 0 then Inr (arr1(key := None)) else Inr arr1))
      | None \<Rightarrow>
          if key \<in> set Object_prototype_names then Inl TypeError else Inr arr)"

text \<open>\<^verbatim>\<open>removeListener\<close>. With a selector that is a string, \<^verbatim>\<open>arr\<close> is
  \<^verbatim>\<open>delegating[this.event_].selectors\<close>. When \<^verbatim>\<open>delegating\<close> has no own entry for the
  event this raises: reading \<^verbatim>\<open>selectors\<close> of \<^verbatim>\<open>undefined\<close> does, and for an inherited name
  \<^verbatim>\<open>arr\<close> is \<^verbatim>\<open>undefined\<close> and reading \<^verbatim>\<open>arr[key]\<close> does. The result is the side-table after
  the call.\<close>

definition removeListener :: "handle \<Rightarrow> domData \<Rightarrow> js_error + domData" where
  "removeListener this dd =
     (let element = this_emitter this;
          selector = this_selector this
      in if truthy (isString selector)
         then (case domData_get_delegating dd element (this_event this) of
                 None \<Rightarrow> Inl TypeError
               | Some entry \<Rightarrow>
                   (let key = (case selector of JString s \<Rightarrow> s | _ \<Rightarrow> [])
                    in case remove_at_key (selectors entry) key (this_listener this) of
                         Inl e \<Rightarrow> Inl e
                       | Inr arr \<Rightarrow>
                           Inr (dd(element := (dd element)
                             \<lparr>delegating := (domData_get_delegating dd element)
                                (this_event this \<mapsto> entry\<lparr>selectors := arr\<rparr>)\<rparr>))))
         else (let key = this_event this
               in case remove_at_key (domData_get_listeners dd element) key
                         (this_listener this) of
                    Inl e \<Rightarrow> Inl e
                  | Inr arr \<Rightarrow> Inr (dd(element := (dd element)\<lparr>listeners := arr\<rparr>))))"

text \<open>The side-table when nothing has been registered on any element.\<close>

definition no_data :: domData where
  "no_data = (\<lambda>element. \<lparr>delegating = Map.empty, listeners = Map.empty\<rparr>)"

section \<open>Properties of removeListener\<close>

lemma remove_at_key_absent:
  "arr key = None \<Longrightarrow> key \<notin> set Object_prototype_names \<Longrightarrow>
   remove_at_key arr key l = Inr arr"
  by (simp add: remove_at_key_def)

lemma remove_at_key_inherited:
  "arr key = None \<Longrightarrow> key \<in> set Object_prototype_names \<Longrightarrow>
   remove_at_key arr key l = Inl TypeError"
  by (simp add: remove_at_key_def)

lemma remove_at_key_other:
  "remove_at_key arr key l = Inr arr' \<Longrightarrow> k \<noteq> key \<Longrightarrow> arr' k = arr k"
  by (auto simp add: remove_at_key_def Let_def split: option.splits if_splits)

lemma remove_at_key_not_empty:
  "remove_at_key arr key l = Inr arr' \<Longrightarrow> arr' key \<noteq> Some []"
  by (auto simp add: remove_at_key_def Let_def split: option.splits if_splits)

lemma remove_at_key_present:
  "arr key = Some bucket \<Longrightarrow>
   remove_at_key arr key l =
     Inr (if array_remove bucket l = [] then arr(key := None)
          else arr(key \<mapsto> array_remove bucket l))"
  by (simp add: remove_at_key_def Let_def)

text \<open>
  Claim C1, as the code has it. When the bucket \<^verbatim>\<open>arr[key]\<close> that \<^verbatim>\<open>removeListener\<close>
  addresses does not exist, and the key is not a name inherited from \<^verbatim>\<open>Object.prototype\<close>,
  the call raises nothing and leaves the side-table as it was: for a handle whose selector
  is not a string, when \<^verbatim>\<open>listeners\<close> has no entry for the event; for a handle with a
  selector string, when \<^verbatim>\<open>delegating\<close> has an entry for the event and its \<^verbatim>\<open>selectors\<close>
  has none for the selector.
\<close>

theorem removeListener_missing_bucket:
  "(typeof (this_selector h) \<noteq> ''string'' \<and>
    listeners (dd (this_emitter h)) (this_event h) = None \<and>
    this_event h \<notin> set Object_prototype_names
      \<longrightarrow> removeListener h dd = Inr dd) \<and>
   (this_selector h = JString sel \<and>
    delegating (dd (this_emitter h)) (this_event h) = Some entry \<and>
    selectors entry sel = None \<and>
    sel \<notin> set Object_prototype_names
      \<longrightarrow> removeListener h dd = Inr dd)"
  by (auto simp add: removeListener_def isString_def domData_get_delegating_def
      domData_get_listeners_def remove_at_key_absent Let_def map_upd_triv)

theorem removeListener_missing_bucket_witness:
  "listeners (no_data 0) ''click'' = None \<and>
   ''click'' \<notin> set Object_prototype_names \<and> ''.item'' \<notin> set Object_prototype_names \<and>
   removeListener (DomDelegatedEventHandle 0 ''click'' 1 JUndefined) no_data = Inr no_data \<and>
   delegating ((no_data(0 := \<lparr>delegating = [''click'' \<mapsto> \<lparr>selectors = Map.empty\<rparr>],
                               listeners = Map.empty\<rparr>)) 0) ''click''
     = Some \<lparr>selectors = Map.empty\<rparr> \<and>
   removeListener (DomDelegatedEventHandle 0 ''click'' 1 (JString ''.item''))
     (no_data(0 := \<lparr>delegating = [''click'' \<mapsto> \<lparr>selectors = Map.empty\<rparr>],
                     listeners = Map.empty\<rparr>))
     = Inr (no_data(0 := \<lparr>delegating = [''click'' \<mapsto> \<lparr>selectors = Map.empty\<rparr>],
                          listeners = Map.empty\<rparr>))"
proof -
  let ?h1 = "DomDelegatedEventHandle 0 ''click'' 1 JUndefined"
  let ?h2 = "DomDelegatedEventHandle 0 ''click'' 1 (JString ''.item'')"
  let ?dd = "no_data(0 := \<lparr>delegating = [''click'' \<mapsto> \<lparr>selectors = Map.empty\<rparr>],
                           listeners = Map.empty\<rparr>)"
  have a: "typeof (this_selector ?h1) \<noteq> ''string'' \<and>
           listeners (no_data (this_emitter ?h1)) (this_event ?h1) = None \<and>
           this_event ?h1 \<notin> set Object_prototype_names"
    by (simp add: DomDelegatedEventHandle_def no_data_def Object_prototype_names_def)
  have b: "this_selector ?h2 = JString ''.item'' \<and>
           delegating (?dd (this_emitter ?h2)) (this_event ?h2) = Some \<lparr>selectors = Map.empty\<rparr> \<and>
           selectors \<lparr>selectors = Map.empty\<rparr> ''.item'' = None \<and>
           ''.item'' \<notin> set Object_prototype_names"
    by (simp add: DomDelegatedEventHandle_def Object_prototype_names_def)
  have "removeListener ?h1 no_data = Inr no_data"
    using removeListener_missing_bucket [of ?h1 no_data] a by blast
  moreover have "removeListener ?h2 ?dd = Inr ?dd"
    using removeListener_missing_bucket [of ?h2 ?dd "''.item''" "\<lparr>selectors = Map.empty\<rparr>"] b
    by blast
  ultimately show ?thesis by (simp add: no_data_def Object_prototype_names_def)
qed

text \<open>For a name inherited from \<^verbatim>\<open>Object.prototype\<close> that is not an own key, the call
  raises: an event name on a handle without a selector string, a selector on a handle with
  one.\<close>

lemma removeListener_inherited_key_raises:
  "(typeof (this_selector h) \<noteq> ''string'' \<and>
    listeners (dd (this_emitter h)) (this_event h) = None \<and>
    this_event h \<in> set Object_prototype_names
      \<longrightarrow> removeListener h dd = Inl TypeError) \<and>
   (this_selector h = JString sel \<and>
    delegating (dd (this_emitter h)) (this_event h) = Some entry \<and>
    selectors entry sel = None \<and>
    sel \<in> set Object_prototype_names
      \<longrightarrow> removeListener h dd = Inl TypeError)"
  by (auto simp add: removeListener_def isString_def domData_get_delegating_def
      domData_get_listeners_def remove_at_key_inherited Let_def)

text \<open>The claim as it was stated fails for a handle with a selector: when \<^verbatim>\<open>delegating\<close>
  has no entry for the event, reading \<^verbatim>\<open>selectors\<close> of \<^verbatim>\<open>undefined\<close> raises.\<close>

theorem removeListener_missing_delegating_raises:
  "delegating (no_data 0) ''click'' = None \<and>
   removeListener (DomDelegatedEventHandle 0 ''click'' 1 (JString ''.item'')) no_data
     = Inl TypeError"
  by (simp add: removeListener_def DomDelegatedEventHandle_def isString_def
      domData_get_delegating_def no_data_def)

text \<open>
  Claim C2. When \<^verbatim>\<open>listeners['click']\<close> of the element is \<^verbatim>\<open>[L1, L2]\<close>, \<^verbatim>\<open>removeListener\<close>
  on a handle made with no selector for the event \<^verbatim>\<open>'click'\<close> and the listener \<^verbatim>\<open>L1\<close>
  raises nothing and leaves the side-table as it was but for \<^verbatim>\<open>listeners['click']\<close> of that
  element, which is \<^verbatim>\<open>[L2]\<close>.
\<close>

theorem removeListener_click_L1:
  assumes "listeners (dd el) ''click'' = Some [L1, L2]"
  shows "removeListener (DomDelegatedEventHandle el ''click'' L1 JUndefined) dd =
           Inr (dd(el := (dd el)\<lparr>listeners := (listeners (dd el))(''click'' \<mapsto> [L2])\<rparr>))"
  using assms
  by (simp add: removeListener_def isString_def domData_get_listeners_def
      DomDelegatedEventHandle_def remove_at_key_def array_remove_def Let_def)

theorem removeListener_click_L1_witness:
  "listeners ((no_data(0 := \<lparr>delegating = Map.empty, listeners = [''click'' \<mapsto> [1, 2]]\<rparr>)) 0) ''click''
     = Some [1, 2] \<and>
   removeListener (DomDelegatedEventHandle 0 ''click'' 1 JUndefined)
     (no_data(0 := \<lparr>delegating = Map.empty, listeners = [''click'' \<mapsto> [1, 2]]\<rparr>))
     = Inr (no_data(0 := \<lparr>delegating = Map.empty, listeners = [''click'' \<mapsto> [2]]\<rparr>))"
proof -
  let ?dd = "no_data(0 := \<lparr>delegating = Map.empty, listeners = [''click'' \<mapsto> [1, 2]]\<rparr>)"
  have a: "listeners (?dd 0) ''click'' = Some [1, 2]" by simp
  from removeListener_click_L1 [of ?dd 0 1 2] a show ?thesis by simp
qed

text \<open>
  Claim C3. After a call of \<^verbatim>\<open>removeListener\<close> that returns, the bucket the handle addresses
  is not an empty array: it holds a listener or its key is not there. When the removal
  leaves the bucket empty, the key is deleted from the mapping that held it
  (\<^verbatim>\<open>listeners\<close>, or \<^verbatim>\<open>selectors\<close> of the entry of the event in \<^verbatim>\<open>delegating\<close>): with
  \<^verbatim>\<open>delegating['click'].selectors['.item'] = [L1]\<close>, removing \<^verbatim>\<open>L1\<close> deletes the key
  \<^verbatim>\<open>'.item'\<close>.
\<close>

theorem removeListener_prunes_empty_bucket:
  "(removeListener h dd = Inr dd' \<and> typeof (this_selector h) \<noteq> ''string''
      \<longrightarrow> listeners (dd' (this_emitter h)) (this_event h) \<noteq> Some []) \<and>
   (removeListener h dd = Inr dd' \<and> this_selector h = JString sel
      \<longrightarrow> (\<exists>entry'. delegating (dd' (this_emitter h)) (this_event h) = Some entry' \<and>
             selectors entry' sel \<noteq> Some [])) \<and>
   (typeof (this_selector h) \<noteq> ''string'' \<and>
    listeners (dd (this_emitter h)) (this_event h) = Some bucket \<and>
    array_remove bucket (this_listener h) = []
      \<longrightarrow> (\<exists>dd1. removeListener h dd = Inr dd1 \<and>
             this_event h \<notin> dom (listeners (dd1 (this_emitter h))))) \<and>
   (this_selector h = JString sel \<and>
    delegating (dd (this_emitter h)) (this_event h) = Some entry \<and>
    selectors entry sel = Some bucket \<and>
    array_remove bucket (this_listener h) = []
      \<longrightarrow> (\<exists>dd1 entry1. removeListener h dd = Inr dd1 \<and>
             delegating (dd1 (this_emitter h)) (this_event h) = Some entry1 \<and>
             sel \<notin> dom (selectors entry1)))"
  by (auto simp add: removeListener_def isString_def domData_get_delegating_def
      domData_get_listeners_def remove_at_key_present Let_def
      split: option.splits sum.splits dest: remove_at_key_not_empty)

theorem removeListener_prunes_empty_bucket_witness:
  "removeListener (DomDelegatedEventHandle 0 ''click'' 1 (JString ''.item''))
     (no_data(0 := \<lparr>delegating = [''click'' \<mapsto> \<lparr>selectors = [''.item'' \<mapsto> [1]]\<rparr>],
                     listeners = Map.empty\<rparr>))
     = Inr (no_data(0 := \<lparr>delegating = [''click'' \<mapsto> \<lparr>selectors = Map.empty\<rparr>],
                          listeners = Map.empty\<rparr>)) \<and>
   ''.item'' \<notin> dom (selectors \<lparr>selectors = Map.empty\<rparr>) \<and>
   selectors \<lparr>selectors = Map.empty\<rparr> ''.item'' \<noteq> Some [] \<and>
   removeListener (DomDelegatedEventHandle 0 ''click'' 1 JUndefined)
     (no_data(0 := \<lparr>delegating = Map.empty, listeners = [''click'' \<mapsto> [1]]\<rparr>))
     = Inr no_data \<and>
   ''click'' \<notin> dom (listeners (no_data 0)) \<and>
   listeners (no_data 0) ''click'' \<noteq> Some []"
proof -
  let ?h1 = "DomDelegatedEventHandle 0 ''click'' 1 (JString ''.item'')"
  let ?dd1 = "no_data(0 := \<lparr>delegating = [''click'' \<mapsto> \<lparr>selectors = [''.item'' \<mapsto> [1]]\<rparr>],
                            listeners = Map.empty\<rparr>)"
  let ?h2 = "DomDelegatedEventHandle 0 ''click'' 1 JUndefined"
  let ?dd2 = "no_data(0 := \<lparr>delegating = Map.empty, listeners = [''click'' \<mapsto> [1]]\<rparr>)"
  have r1: "removeListener ?h1 ?dd1 =
      Inr (no_data(0 := \<lparr>delegating = [''click'' \<mapsto> \<lparr>selectors = Map.empty\<rparr>],
                          listeners = Map.empty\<rparr>))"
    by (simp add: removeListener_def DomDelegatedEventHandle_def isString_def
        domData_get_delegating_def remove_at_key_def array_remove_def)
  have r2: "removeListener ?h2 ?dd2 = Inr no_data"
    by (simp add: removeListener_def DomDelegatedEventHandle_def isString_def
        domData_get_listeners_def remove_at_key_def array_remove_def no_data_def fun_eq_iff)
  have a: "this_selector ?h1 = JString ''.item'' \<and>
           delegating (?dd1 (this_emitter ?h1)) (this_event ?h1)
             = Some \<lparr>selectors = [''.item'' \<mapsto> [1]]\<rparr> \<and>
           selectors \<lparr>selectors = [''.item'' \<mapsto> [1]]\<rparr> ''.item'' = Some [1] \<and>
           array_remove [1] (this_listener ?h1) = []"
    by (simp add: DomDelegatedEventHandle_def array_remove_def)
  have b: "typeof (this_selector ?h2) \<noteq> ''string'' \<and>
           listeners (?dd2 (this_emitter ?h2)) (this_event ?h2) = Some [1] \<and>
           array_remove [1] (this_listener ?h2) = []"
    by (simp add: DomDelegatedEventHandle_def array_remove_def)
  have "\<exists>dd1 entry1. removeListener ?h1 ?dd1 = Inr dd1 \<and>
          delegating (dd1 (this_emitter ?h1)) (this_event ?h1) = Some entry1 \<and>
          ''.item'' \<notin> dom (selectors entry1)"
    by (rule removeListener_prunes_empty_bucket
      [where h = ?h1 and dd = ?dd1 and sel = "''.item''" and bucket = "[1]"
         and entry = "\<lparr>selectors = [''.item'' \<mapsto> [1]]\<rparr>",
       THEN conjunct2, THEN conjunct2, THEN conjunct2, THEN mp, OF a])
  then have c: "''.item'' \<notin> dom (selectors \<lparr>selectors = Map.empty\<rparr>)"
    unfolding r1 by (simp add: DomDelegatedEventHandle_def)
  have "\<exists>dd1. removeListener ?h2 ?dd2 = Inr dd1 \<and>
          this_event ?h2 \<notin> dom (listeners (dd1 (this_emitter ?h2)))"
    by (rule removeListener_prunes_empty_bucket
      [where h = ?h2 and dd = ?dd2 and bucket = "[1]",
       THEN conjunct2, THEN conjunct2, THEN conjunct1, THEN mp, OF b])
  then have d: "''click'' \<notin> dom (listeners (no_data 0))"
    unfolding r2 by (simp add: DomDelegatedEventHandle_def)
  have g1: "removeListener ?h1 ?dd1 =
      Inr (no_data(0 := \<lparr>delegating = [''click'' \<mapsto> \<lparr>selectors = Map.empty\<rparr>],
                          listeners = Map.empty\<rparr>)) \<and>
      this_selector ?h1 = JString ''.item''"
    by (rule conjI [OF r1]) (simp add: DomDelegatedEventHandle_def)
  have "\<exists>entry'. delegating
            ((no_data(0 := \<lparr>delegating = [''click'' \<mapsto> \<lparr>selectors = Map.empty\<rparr>],
                             listeners = Map.empty\<rparr>)) (this_emitter ?h1)) (this_event ?h1)
            = Some entry' \<and> selectors entry' ''.item'' \<noteq> Some []"
    by (rule removeListener_prunes_empty_bucket
      [where h = ?h1 and dd = ?dd1 and sel = "''.item''",
       THEN conjunct2, THEN conjunct1, THEN mp, OF g1])
  then have e: "selectors \<lparr>selectors = Map.empty\<rparr> ''.item'' \<noteq> Some []"
    by (simp add: DomDelegatedEventHandle_def)
  have g2: "removeListener ?h2 ?dd2 = Inr no_data \<and>
      typeof (this_selector ?h2) \<noteq> ''string''"
    by (rule conjI [OF r2]) (simp add: DomDelegatedEventHandle_def)
  have "listeners (no_data (this_emitter ?h2)) (this_event ?h2) \<noteq> Some []"
    by (rule removeListener_prunes_empty_bucket
      [where h = ?h2 and dd = ?dd2, THEN conjunct1, THEN mp, OF g2])
  then have f: "listeners (no_data 0) ''click'' \<noteq> Some []"
    by (simp add: DomDelegatedEventHandle_def)
  from r1 r2 c d e f show ?thesis by (intro conjI)
qed

text \<open>
  Claim C9. A call of \<^verbatim>\<open>removeListener\<close> on a handle with a selector string that returns
  leaves \<^verbatim>\<open>listeners\<close> as it was, keeps every entry of \<^verbatim>\<open>delegating\<close> (the entry of the
  event too, also when its \<^verbatim>\<open>selectors\<close> is then empty), changes no entry of
  \<^verbatim>\<open>delegating\<close> but the one of the event, and in that one no key of \<^verbatim>\<open>selectors\<close> but
  the selector of the handle; the data of the other elements stays as it was.
\<close>

theorem removeListener_selector_frame:
  assumes "this_selector h = JString sel" and "removeListener h dd = Inr dd'"
  shows "listeners (dd' (this_emitter h)) = listeners (dd (this_emitter h)) \<and>
         dom (delegating (dd' (this_emitter h))) = dom (delegating (dd (this_emitter h))) \<and>
         (\<forall>ev. ev \<noteq> this_event h \<longrightarrow>
            delegating (dd' (this_emitter h)) ev = delegating (dd (this_emitter h)) ev) \<and>
         (\<exists>entry entry'. delegating (dd (this_emitter h)) (this_event h) = Some entry \<and>
            delegating (dd' (this_emitter h)) (this_event h) = Some entry' \<and>
            (\<forall>k. k \<noteq> sel \<longrightarrow> selectors entry' k = selectors entry k)) \<and>
         (\<forall>e. e \<noteq> this_emitter h \<longrightarrow> dd' e = dd e)"
  using assms
  by (auto simp add: removeListener_def isString_def domData_get_delegating_def
      Let_def split: option.splits if_splits sum.splits dest: remove_at_key_other)

theorem removeListener_selector_frame_witness:
  "removeListener (DomDelegatedEventHandle 0 ''click'' 1 (JString ''.item''))
     (no_data(0 := \<lparr>delegating = [''click'' \<mapsto> \<lparr>selectors = [''.item'' \<mapsto> [1]]\<rparr>],
                     listeners = [''click'' \<mapsto> [1]]\<rparr>))
     = Inr (no_data(0 := \<lparr>delegating = [''click'' \<mapsto> \<lparr>selectors = Map.empty\<rparr>],
                          listeners = [''click'' \<mapsto> [1]]\<rparr>)) \<and>
   dom (delegating ((no_data(0 := \<lparr>delegating = [''click'' \<mapsto> \<lparr>selectors = Map.empty\<rparr>],
                                   listeners = [''click'' \<mapsto> [1]]\<rparr>)) 0)) = {''click''}"
proof -
  let ?h = "DomDelegatedEventHandle 0 ''click'' 1 (JString ''.item'')"
  let ?dd = "no_data(0 := \<lparr>delegating = [''click'' \<mapsto> \<lparr>selectors = [''.item'' \<mapsto> [1]]\<rparr>],
                           listeners = [''click'' \<mapsto> [1]]\<rparr>)"
  let ?dd' = "no_data(0 := \<lparr>delegating = [''click'' \<mapsto> \<lparr>selectors = Map.empty\<rparr>],
                            listeners = [''click'' \<mapsto> [1]]\<rparr>)"
  have a: "this_selector ?h = JString ''.item''" by (simp add: DomDelegatedEventHandle_def)
  have r: "removeListener ?h ?dd = Inr ?dd'"
    by (simp add: removeListener_def DomDelegatedEventHandle_def isString_def
        domData_get_delegating_def remove_at_key_def array_remove_def)
  have "dom (delegating (?dd' (this_emitter ?h))) = dom (delegating (?dd (this_emitter ?h)))"
    by (rule removeListener_selector_frame [OF a r, THEN conjunct2, THEN conjunct1])
  then have "dom (delegating (?dd' 0)) = {''click''}"
    by (simp add: DomDelegatedEventHandle_def)
  with r show ?thesis by (intro conjI)
qed


section \<open>Properties of the type predicates\<close>

lemma predicates_boolean:
  "(\<exists>b. isBoolean v = JBoolean b) \<and> (\<exists>b. isDef v = JBoolean b) \<and>
   (\<exists>b. isDefAndNotNull v = JBoolean b) \<and> (\<exists>b. isFunction v = JBoolean b) \<and>
   (\<exists>b. isNull v = JBoolean b) \<and> (\<exists>b. isObject v = JBoolean b) \<and>
   (\<exists>b. isString v = JBoolean b)"
  by (auto simp add: isBoolean_def isDef_def isDefAndNotNull_def isFunction_def isNull_def
      isObject_def isString_def js_and_def js_not_def Let_def)

lemma isElement_returns: "\<exists>x. isElement h v = Inr x"
  by (cases v) (auto simp add: isElement_def js_and_def get_prop_def Let_def)

lemma isElement_true_iff:
  "isElement h v = Inr (JBoolean True) \<longleftrightarrow>
     typeof v = ''object'' \<and> v \<noteq> JNull \<and> get_prop h v ''nodeType'' = Inr (JNumber 1)"
  by (cases v) (auto simp add: isElement_def js_and_def get_prop_def strict_equals_def Let_def)

lemma isElement_boolean_iff:
  "(\<exists>b. isElement h v = Inr (JBoolean b)) \<longleftrightarrow> truthy v \<or> v = JBoolean False"
  by (cases v) (auto simp add: isElement_def js_and_def get_prop_def Let_def)

text \<open>
  Claim C7, at the input where the code leaves it. \<^verbatim>\<open>isElement(null)\<close> returns \<^verbatim>\<open>null\<close>,
  which is not a boolean: \<^verbatim>\<open>val && ...\<close> gives \<^verbatim>\<open>val\<close> itself when \<^verbatim>\<open>val\<close> is falsy, and
  so it does for \<^verbatim>\<open>undefined\<close>, \<^verbatim>\<open>0\<close> and the empty string. (The seven other predicates
  give a boolean for every value, and \<^verbatim>\<open>isElement\<close> raises nothing and gives \<^verbatim>\<open>true\<close>
  exactly for an object whose \<^verbatim>\<open>nodeType\<close> is 1: the lemmas above.)
\<close>

theorem isElement_null_not_boolean:
  "isElement h JNull = Inr JNull \<and> (\<forall>b. isElement h JNull \<noteq> Inr (JBoolean b)) \<and>
   isElement h JUndefined = Inr JUndefined \<and> isElement h (JNumber 0) = Inr (JNumber 0) \<and>
   isElement h (JString []) = Inr (JString [])"
  by (simp add: isElement_def js_and_def)

section \<open>Properties of bind and rbind\<close>

text \<open>
  Claim C5. For every function \<^verbatim>\<open>fn\<close>, context \<^verbatim>\<open>ctx\<close>, partial arguments \<open>as\<close> and
  call-time arguments \<open>bs\<close>, whatever the receiver of the call: \<^verbatim>\<open>bind(fn, ctx, ...as)\<close>
  returns a callable which, called with \<open>bs\<close>, does what calling \<^verbatim>\<open>fn\<close> with receiver
  \<^verbatim>\<open>ctx\<close> and the arguments \<open>as\<close> followed by \<open>bs\<close> does, and the callable of
  \<^verbatim>\<open>rbind(fn, ctx, ...as)\<close> does what calling \<^verbatim>\<open>fn\<close> with receiver \<^verbatim>\<open>ctx\<close> and \<open>bs\<close>
  followed by \<open>as\<close> does. With \<open>as = ['a']\<close> and \<open>bs = ['b']\<close> the argument lists are
  \<^verbatim>\<open>['a','b']\<close> and \<^verbatim>\<open>['b','a']\<close>. It holds with and without the native \<^verbatim>\<open>bind\<close>.
\<close>

theorem bind_rbind_arguments:
  "(\<exists>g. bind hasNativeBind F (JFunction fn # ctx # as) = Inr g \<and>
        g this bs = Inr (F fn ctx (as @ bs))) \<and>
   (\<exists>g. rbind F (JFunction fn # ctx # as) = Inr g \<and>
        g this bs = Inr (F fn ctx (bs @ as)))"
  by (cases as) (simp_all add: bind_def rbind_def bindWithNative_def bindWithoutNative_def
      bindWithArgs_def bindWithoutArgs_def native_bind_def fn_apply_def argument_def Let_def)

text \<open>When \<^verbatim>\<open>bind\<close> raises: on a falsy argument, and with the native \<^verbatim>\<open>bind\<close> on an
  argument that is not a function.\<close>

lemma bind_raises_iff:
  "isl (bind hasNativeBind F arguments) \<longleftrightarrow>
     \<not> truthy (argument arguments 0) \<or>
     hasNativeBind \<and> typeof (argument arguments 0) \<noteq> ''function''"
  by (cases "argument arguments 0")
     (auto simp add: bind_def bindWithNative_def Let_def)

text \<open>
  Claim C6, as the code has it. \<^verbatim>\<open>bind\<close> and \<^verbatim>\<open>rbind\<close> raise the \<^verbatim>\<open>Error\<close> of their first
  statement, in place of any result, exactly when the function argument is falsy;
  \<^verbatim>\<open>rbind\<close> raises nothing else, so it returns a callable exactly when the argument is
  truthy; and when the argument is a function both return a callable.
\<close>

theorem bind_rbind_raise:
  "(bind hasNativeBind F arguments = Inl Error \<longleftrightarrow> \<not> truthy (argument arguments 0)) \<and>
   (rbind F arguments = Inl Error \<longleftrightarrow> \<not> truthy (argument arguments 0)) \<and>
   (isl (rbind F arguments) \<longleftrightarrow> \<not> truthy (argument arguments 0)) \<and>
   (typeof (argument arguments 0) = ''function'' \<longrightarrow>
      \<not> isl (bind hasNativeBind F arguments) \<and> \<not> isl (rbind F arguments))"
  by (cases "argument arguments 0")
     (auto simp add: bind_def rbind_def bindWithNative_def Let_def)

theorem bind_rbind_raise_witness:
  "typeof (argument [JFunction 0, JObject 0] 0) = ''function'' \<and>
   \<not> isl (bind True (\<lambda>r this args. (this, args)) [JFunction 0, JObject 0]) \<and>
   \<not> isl (rbind (\<lambda>r this args. (this, args)) [JFunction 0, JObject 0]) \<and>
   \<not> truthy (argument [JNull, JObject 0] 0) \<and>
   bind True (\<lambda>r this args. (this, args)) [JNull, JObject 0] = Inl Error \<and>
   rbind (\<lambda>r this args. (this, args)) [JNull, JObject 0] = Inl Error"
proof -
  let ?F = "\<lambda>(r::nat) this args. (this, args)"
  have a: "typeof (argument [JFunction 0, JObject 0] 0) = ''function''"
    by (simp add: argument_def)
  have b: "\<not> truthy (argument [JNull, JObject 0] 0)"
    by (simp add: argument_def)
  note t1 = bind_rbind_raise [where hasNativeBind = True and F = ?F
      and arguments = "[JFunction 0, JObject 0]"]
  note t2 = bind_rbind_raise [where hasNativeBind = True and F = ?F
      and arguments = "[JNull, JObject 0]"]
  from t1 a have "\<not> isl (bind True ?F [JFunction 0, JObject 0])"
    and "\<not> isl (rbind ?F [JFunction 0, JObject 0])" by blast+
  moreover from t2 b have "bind True ?F [JNull, JObject 0] = Inl Error"
    and "rbind ?F [JNull, JObject 0] = Inl Error" by blast+
  ultimately show ?thesis using a b by (intro conjI)
qed

text \<open>The claim as it was stated fails for \<^verbatim>\<open>bind\<close>: with the native \<^verbatim>\<open>bind\<close> there, a
  truthy argument that is not a function makes \<^verbatim>\<open>bindWithNative_\<close> raise.\<close>

theorem bind_truthy_raises:
  "truthy (JNumber 5) \<and>
   bind True (\<lambda>r this args. (this, args)) [JNumber 5, JObject 0] = Inl TypeError"
  by (simp add: bind_def bindWithNative_def argument_def)

section \<open>Properties of getUid\<close>

lemma lookup_none: "\<forall>w\<in>set ws. own w p = None \<Longrightarrow> lookup own ws p = JUndefined"
  by (induction ws) simp_all

lemma get_prop_reference:
  assumes "is_reference v" and "\<forall>w\<in>set (prototypes h v). properties h w p = None"
  shows "get_prop h v p = Inr (case properties h v p of None \<Rightarrow> JUndefined | Some x \<Rightarrow> x)"
  using assms by (auto simp add: get_prop_def is_reference_def lookup_none split: option.splits)


lemma getUid_undefined:
  "getUid JUndefined s =
     (Inr (JNumber (uniqueIdCounter s)), s\<lparr>uniqueIdCounter := increment (uniqueIdCounter s)\<rparr>)"
  by (simp add: getUid_def)



text \<open>On a frozen object that has no number yet, own or inherited, the call raises, and
  the counter has been incremented.\<close>

lemma getUid_frozen_raises:
  assumes "is_reference v"
    and "properties (objects s) v (UID_PROPERTY s) = None"
    and "\<forall>w\<in>set (prototypes (objects s) v). properties (objects s) w (UID_PROPERTY s) = None"
    and "frozen (objects s) v"
  shows "getUid v s = (Inl TypeError, s\<lparr>uniqueIdCounter := increment (uniqueIdCounter s)\<rparr>)"
proof -
  have "truthy v" using assms(1) by (cases v) (simp_all add: is_reference_def)
  then show ?thesis
    using get_prop_reference [OF assms(1,3)] assms(1,2,4)
    by (simp add: getUid_def set_prop_def Let_def)
qed











text \<open>
  Claim C10, as the code has it. A call of \<^verbatim>\<open>getUid\<close> with a falsy argument does what the
  call with no argument does, in every state. While the counter is below \<open>2 ^ 53\<close> the call
  returns the counter and increments it, and changes no object; a second call with the
  same falsy value then returns the next number, which is another one.
\<close>

theorem getUid_falsy:
  assumes "\<not> truthy v"
  shows "getUid v s = getUid JUndefined s \<and>
         (0 < uniqueIdCounter s \<and> uniqueIdCounter s < 2 ^ 53 \<longrightarrow>
            getUid v s =
              (Inr (JNumber (uniqueIdCounter s)),
               s\<lparr>uniqueIdCounter := uniqueIdCounter s + 1\<rparr>) \<and>
            fst (getUid v (snd (getUid v s))) = Inr (JNumber (uniqueIdCounter s + 1)) \<and>
            fst (getUid v (snd (getUid v s))) \<noteq> fst (getUid v s) \<and>
            objects (snd (getUid v (snd (getUid v s)))) = objects s)"
  using assms by (simp add: getUid_def increment_def)

theorem getUid_falsy_witness:
  "\<not> truthy (JNumber 0) \<and>
   0 < uniqueIdCounter (core_init ''7'' empty_heap) \<and>
   uniqueIdCounter (core_init ''7'' empty_heap) < 2 ^ 53 \<and>
   getUid (JNumber 0) (core_init ''7'' empty_heap) =
     getUid JUndefined (core_init ''7'' empty_heap) \<and>
   fst (getUid (JNumber 0) (core_init ''7'' empty_heap)) = Inr (JNumber 1) \<and>
   fst (getUid (JNumber 0) (snd (getUid (JNumber 0) (core_init ''7'' empty_heap))))
     = Inr (JNumber 2)"
proof -
  let ?s = "core_init ''7'' empty_heap"
  have a: "\<not> truthy (JNumber 0)" by simp
  have c: "uniqueIdCounter ?s = 1" by (simp add: core_init_def)
  have b: "0 < uniqueIdCounter ?s \<and> uniqueIdCounter ?s < 2 ^ 53" by (simp add: c)
  note t = getUid_falsy [OF a, of ?s]
  note t2 = t [THEN conjunct2, THEN mp, OF b]
  have "getUid (JNumber 0) ?s = getUid JUndefined ?s"
    by (rule t [THEN conjunct1])
  moreover have "fst (getUid (JNumber 0) ?s) = Inr (JNumber 1)"
    using t2 [THEN conjunct1] c by simp
  moreover have "fst (getUid (JNumber 0) (snd (getUid (JNumber 0) ?s))) = Inr (JNumber 2)"
    using t2 [THEN conjunct2, THEN conjunct1] c by simp
  ultimately show ?thesis using a b by (intro conjI) simp_all
qed

text \<open>The claim as it was stated fails when the counter has reached \<open>2 ^ 53\<close>: the
  increment leaves it there, and two calls with the same falsy value return the same
  number.\<close>

theorem getUid_falsy_repeats_at_limit:
  "\<not> truthy (JNumber 0) \<and>
   fst (getUid (JNumber 0)
          \<lparr>UID_PROPERTY = ''core_7'', uniqueIdCounter = 2 ^ 53, objects = empty_heap\<rparr>) =
     Inr (JNumber (2 ^ 53)) \<and>
   fst (getUid (JNumber 0) (snd (getUid (JNumber 0)
          \<lparr>UID_PROPERTY = ''core_7'', uniqueIdCounter = 2 ^ 53, objects = empty_heap\<rparr>))) =
     Inr (JNumber (2 ^ 53))"
  by (simp add: getUid_def increment_def)

text \<open>That state is the one the module is in after \<open>2 ^ 53 - 1\<close> calls with no argument.\<close>

lemma getUid_calls_undefined_state:
  assumes "uniqueIdCounter s \<le> 2 ^ 53"
  shows "snd (getUid_calls (replicate n JUndefined) s) =
           s\<lparr>uniqueIdCounter := min (uniqueIdCounter s + int n) (2 ^ 53)\<rparr>"
  using assms
proof (induction n arbitrary: s)
  case 0
  then show ?case by simp
next
  case (Suc n)
  have le: "increment (uniqueIdCounter s) \<le> 2 ^ 53"
    using Suc.prems by (simp add: increment_def)
  show ?case
    using Suc.IH [of "s\<lparr>uniqueIdCounter := increment (uniqueIdCounter s)\<rparr>"] le Suc.prems
    by (auto simp add: getUid_undefined increment_def split: prod.splits)
qed

lemma counter_limit_reached:
  "snd (getUid_calls (replicate (2 ^ 53 - 1) JUndefined) (core_init ''7'' empty_heap)) =
     \<lparr>UID_PROPERTY = ''core_7'', uniqueIdCounter = 2 ^ 53, objects = empty_heap\<rparr>"
proof -
  have "uniqueIdCounter (core_init ''7'' empty_heap) \<le> 2 ^ 53" by (simp add: core_init_def)
  from getUid_calls_undefined_state [OF this, of "2 ^ 53 - 1"]
  show ?thesis by (simp add: core_init_def)
qed

section \<open>Properties of mergeSuperClassesProperty\<close>

lemma collect_no_superclass:
  assumes "get_prop h c ''superClass_'' = Inr x" and "\<not> truthy x"
    and "get_prop h c p = Inr y"
  shows "collectSuperClassesProperty h c p = Some (Inr [y])"
  using assms
  by (subst collectSuperClassesProperty_def, subst collect_loop.simps) simp

text \<open>When the value kept under the cache key is truthy, a call returns it and neither
  collects nor calls \<^verbatim>\<open>opt_mergeFn\<close>: the heap and the caller's state stay as they were.\<close>

lemma merge_cached:
  assumes "get_prop h c (p @ ''_MERGED'') = Inr v" and "truthy v"
  shows "mergeSuperClassesProperty c p f (h, u) = Some (Inr v, h, u)"
  using assms by (simp add: mergeSuperClassesProperty_def)

lemma merge_result_stored:
  assumes "mergeSuperClassesProperty c p f (h, u) = Some (Inr v, h', u')"
  shows "get_prop h' c (p @ ''_MERGED'') = Inr v"
  using assms
  by (auto simp add: mergeSuperClassesProperty_def Let_def
      split: sum.splits if_splits option.splits prod.splits)

text \<open>A call that returned a truthy value is not computed again: any later call on the
  heap it left returns that value, with the heap and the caller's state unchanged.\<close>

lemma merge_memoized_truthy:
  assumes "mergeSuperClassesProperty c p f (h, u) = Some (Inr v, h', u')" and "truthy v"
  shows "mergeSuperClassesProperty c p g (h', u'') = Some (Inr v, h', u'')"
  using merge_result_stored [OF assms(1)] assms(2)
  by (simp add: mergeSuperClassesProperty_def)

text \<open>Without \<^verbatim>\<open>opt_mergeFn\<close> the merged value is the new array of the collected
  values, here the one value of a constructor with no super class.\<close>

lemma merge_without_mergeFn:
  "mergeSuperClassesProperty (JFunction 0) ''ATTRS'' None (empty_heap, u) =
     Some (Inr (JArray 0),
           empty_heap\<lparr>arrays := [[JUndefined]],
             properties := (\<lambda>v. Map.empty)(JFunction 0 := [''ATTRS_MERGED'' \<mapsto> JArray 0])\<rparr>,
           u)"
proof -
  have c0: "collectSuperClassesProperty empty_heap (JFunction 0) ''ATTRS'' = Some (Inr [JUndefined])"
    by (rule collect_no_superclass [where x = JUndefined])
       (simp_all add: get_prop_def is_reference_def empty_heap_def)
  show ?thesis
    by (simp add: mergeSuperClassesProperty_def c0 [unfolded empty_heap_def, simplified]
        get_prop_def set_prop_def is_reference_def empty_heap_def)
qed

text \<open>
  Claim C8, at the input where the code leaves it. The constructor has no property and no
  super class, and \<^verbatim>\<open>opt_mergeFn\<close> returns \<^verbatim>\<open>0\<close> and counts its calls in the caller's state.
  The first call of \<^verbatim>\<open>mergeSuperClassesProperty\<close> stores \<^verbatim>\<open>0\<close> under \<^verbatim>\<open>ATTRS_MERGED\<close>, with
  one call of \<^verbatim>\<open>opt_mergeFn\<close>. The second call, in the state the first left, finds the
  stored value falsy, collects and merges again: \<^verbatim>\<open>opt_mergeFn\<close> has then been called
  twice.
\<close>

theorem merge_falsy_recomputed:
  "mergeSuperClassesProperty (JFunction 0) ''ATTRS'' (Some (\<lambda>collected n. (JNumber 0, Suc n)))
     (empty_heap, 0) =
     Some (Inr (JNumber 0),
           empty_heap\<lparr>properties := (\<lambda>v. Map.empty)(JFunction 0 := [''ATTRS_MERGED'' \<mapsto> JNumber 0])\<rparr>,
           Suc 0) \<and>
   mergeSuperClassesProperty (JFunction 0) ''ATTRS'' (Some (\<lambda>collected n. (JNumber 0, Suc n)))
     (empty_heap\<lparr>properties := (\<lambda>v. Map.empty)(JFunction 0 := [''ATTRS_MERGED'' \<mapsto> JNumber 0])\<rparr>,
      Suc 0) =
     Some (Inr (JNumber 0),
           empty_heap\<lparr>properties := (\<lambda>v. Map.empty)(JFunction 0 := [''ATTRS_MERGED'' \<mapsto> JNumber 0])\<rparr>,
           Suc (Suc 0))"
proof -
  let ?h1 = "empty_heap\<lparr>properties :=
      (\<lambda>v. Map.empty)(JFunction 0 := [''ATTRS_MERGED'' \<mapsto> JNumber 0])\<rparr>"
  have c0: "collectSuperClassesProperty empty_heap (JFunction 0) ''ATTRS'' = Some (Inr [JUndefined])"
    by (rule collect_no_superclass [where x = JUndefined])
       (simp_all add: get_prop_def is_reference_def empty_heap_def)
  have c1: "collectSuperClassesProperty ?h1 (JFunction 0) ''ATTRS'' = Some (Inr [JUndefined])"
    by (rule collect_no_superclass [where x = JUndefined])
       (simp_all add: get_prop_def is_reference_def empty_heap_def)
  show ?thesis
    by (simp add: mergeSuperClassesProperty_def c0 [unfolded empty_heap_def, simplified]
        c1 [unfolded empty_heap_def, simplified] get_prop_def set_prop_def
        is_reference_def empty_heap_def)
qed

end
